theory Spec2Isabelle
  imports Main
begin

section \<open>Data model of the collab module\<close>

text \<open>
  The module \<^verbatim>\<open>src/collab/index.js\<close> is embedded over two type parameters:
  \<open>'s\<close> for steps and \<open>'d\<close> for documents, both owned by the step/transform
  collaborator. Version numbers and client identifiers are JavaScript numbers used as
  integers, modelled as \<open>int\<close>; a sum of such numbers is a sum of doubles, see
  \<open>js_add\<close> below. A \<^verbatim>\<open>RopeSequence\<close> and a JavaScript array are both modelled
  as a list.
\<close>

datatype error =
    TypeError \<comment> \<open>assignment to a \<^verbatim>\<open>const\<close> binding\<close>
  | TransformError \<comment> \<open>raised inside \<^verbatim>\<open>Transform.step\<close> or \<^verbatim>\<open>rebaseSteps\<close>\<close>

text \<open>An entry \<^verbatim>\<open>{step, inverted}\<close> of the queue of unconfirmed steps.\<close>

record 's pending =
  step :: 's
  inverted :: 's

text \<open>\<^verbatim>\<open>class CollabState { constructor(version, unconfirmed) }\<close>\<close>

record 's CollabState =
  version :: int
  unconfirmed :: "'s pending list"

text \<open>
  Modelled from the spec: the Transform class, missing from src/. A transform is an
  ordered composition of steps that reports, by index, each step (\<open>steps\<close>) and the
  document snapshot preceding it (\<open>docs\<close>); \<open>doc\<close> is the current document.
\<close>

record ('s, 'd) transform =
  doc :: 'd
  steps :: "'s list"
  docs :: "'d list"

text \<open>
  The options object handed to \<^verbatim>\<open>transform.action\<close>. A property that an action
  does not have is \<open>None\<close>.
\<close>

record 's action_options =
  rebased :: "nat option"
  addToHistory :: "bool option"
  newCollabState :: "'s CollabState option"
  interaction :: "bool option"

text \<open>
  Actions, discriminated by their \<^verbatim>\<open>type\<close> property: \<^verbatim>\<open>"transform"\<close>,
  \<^verbatim>\<open>"collabConfirm"\<close>, or anything else.
\<close>

datatype ('s, 'd) action =
    TransformAction "('s, 'd) transform" "'s action_options"
  | CollabConfirm "'s CollabState"
  | OtherAction

text \<open>The two properties of the editor state that the module reads.\<close>

record ('s, 'd) EditorState =
  collab :: "'s CollabState"
  tr :: "('s, 'd) transform"

text \<open>
  The collaborators that are called but not defined in the module, taken as parameters:
  \<^item> \<open>invert s d\<close> is \<^verbatim>\<open>s.invert(d)\<close>; the argument is \<open>None\<close> when the
    caller read it past the end of an array (JavaScript \<^verbatim>\<open>undefined\<close>);
  \<^item> \<open>tr_step t s\<close> is \<^verbatim>\<open>t.step(s)\<close>, which updates the transform in place or
    throws;
  \<^item> \<open>rebaseSteps t steps inverted inside\<close> is the function of the same name from
    \<^verbatim>\<open>./rebase\<close>, which updates the transform in place or throws.
\<close>

record ('s, 'd) collaborators =
  invert :: "'s \<Rightarrow> 'd option \<Rightarrow> 's"
  tr_step :: "('s, 'd) transform \<Rightarrow> 's \<Rightarrow> error + ('s, 'd) transform"
  rebaseSteps :: "('s, 'd) transform \<Rightarrow> 's list \<Rightarrow> 's list \<Rightarrow> 's list
                   \<Rightarrow> error + ('s, 'd) transform"

text \<open>
  Modelled from the spec: \<^verbatim>\<open>Transform.action(options)\<close>, missing from src/:
  the transform action that carries the transform and the given options.
\<close>

definition tr_action :: "('s, 'd) transform \<Rightarrow> 's action_options \<Rightarrow> ('s, 'd) action" where
  "tr_action t opts = TransformAction t opts"

section \<open>Array and rope primitives\<close>

text \<open>\<^verbatim>\<open>xs[i]\<close>: reading past the end gives \<^verbatim>\<open>undefined\<close>.\<close>

definition js_nth :: "'a list \<Rightarrow> nat \<Rightarrow> 'a option" where
  "js_nth xs i = (if i < length xs then Some (xs ! i) else None)"

text \<open>
  \<^verbatim>\<open>xs.slice(from)\<close> for \<open>from \<ge> 0\<close>, on an array and on a RopeSequence alike:
  empty when \<open>from\<close> reaches the length, the remainder otherwise.
\<close>

definition slice_from :: "'a list \<Rightarrow> nat \<Rightarrow> 'a list" where
  "slice_from xs from = (if from \<ge> length xs then [] else drop from xs)"

section \<open>Numbers\<close>

text \<open>
  A JavaScript number is an IEEE 754 double. An integer of magnitude up to \<open>2^53\<close> is a
  double; beyond that the doubles are the multiples of \<open>2^e\<close> with a 53-bit quotient,
  where \<open>e = double_exp\<close> of the magnitude.
\<close>

function double_exp :: "int \<Rightarrow> nat" where
  "double_exp n = (if n < 2 ^ 53 then 0 else Suc (double_exp (n div 2)))"
  by pat_completeness auto
termination
  by (relation "measure (\<lambda>n. nat n)") auto

declare double_exp.simps [simp del]

text \<open>
  The double nearest to the integer \<open>x\<close>, a tie going to the even quotient (the default
  rounding of IEEE 754), for \<open>x\<close> in the range of the finite doubles.
\<close>

definition round_double :: "int \<Rightarrow> int" where
  "round_double x =
     (let m = 2 ^ double_exp \<bar>x\<bar>;
          q = x div m;
          r = x mod m
      in if 2 * r < m then q * m
         else if m < 2 * r then (q + 1) * m
         else if even q then q * m
         else (q + 1) * m)"

text \<open>
  \<^verbatim>\<open>x + n\<close> for an integer-valued number \<open>x\<close> and an array length \<open>n\<close>, as
  IEEE 754 addition gives it: the exact sum, rounded to a double. Adding 0 gives \<open>x\<close>
  itself. An array length is below \<open>2^32\<close>, so the sum of a finite double and a length
  does not overflow.
\<close>

definition js_add :: "int \<Rightarrow> nat \<Rightarrow> int" where
  "js_add x n = (if n = 0 then x else round_double (x + int n))"

section \<open>The module's functions\<close>

text \<open>
  \<^verbatim>\<open>function unconfirmedFrom(transform, start = 0)\<close>: the loop over \<open>i\<close> with the
  array \<open>add\<close> as accumulator.
\<close>

function unconfirmedFrom_loop ::
  "('s, 'd) collaborators \<Rightarrow> ('s, 'd) transform \<Rightarrow> nat \<Rightarrow> 's pending list \<Rightarrow> 's pending list"
where
  "unconfirmedFrom_loop C transform i add =
     (if i < length (steps transform)
      then unconfirmedFrom_loop C transform (Suc i)
             (add @ [\<lparr>step = steps transform ! i,
                      inverted = invert C (steps transform ! i) (js_nth (docs transform) i)\<rparr>])
      else add)"
  by pat_completeness auto
termination
  by (relation "measure (\<lambda>(C, transform, i, add). length (steps transform) - i)") auto

declare unconfirmedFrom_loop.simps [simp del]

definition unconfirmedFrom ::
  "('s, 'd) collaborators \<Rightarrow> ('s, 'd) transform \<Rightarrow> nat \<Rightarrow> 's pending list"
where
  "unconfirmedFrom C transform start = unconfirmedFrom_loop C transform start []"

text \<open>
  The prefix scan of \<^verbatim>\<open>receiveAction\<close>:
  \<^verbatim>\<open>while (ours < clientIDs.length && clientIDs[ours] == ourID) ++ours\<close>.
  The index is below the length when the array is read, and \<^verbatim>\<open>==\<close> on two
  integers is equality.
\<close>

function ours_loop :: "int list \<Rightarrow> int \<Rightarrow> nat \<Rightarrow> nat" where
  "ours_loop clientIDs ourID ours =
     (if ours < length clientIDs \<and> clientIDs ! ours = ourID
      then ours_loop clientIDs ourID (Suc ours)
      else ours)"
  by pat_completeness auto
termination
  by (relation "measure (\<lambda>(clientIDs, ourID, ours). length clientIDs - ours)") auto

declare ours_loop.simps [simp del]

text \<open>
  \<^verbatim>\<open>for (let i = 0; i < steps.length; i++) transform.step(steps[i])\<close>: the first
  step that throws ends the loop.
\<close>

fun step_all ::
  "('s, 'd) collaborators \<Rightarrow> ('s, 'd) transform \<Rightarrow> 's list \<Rightarrow> error + ('s, 'd) transform"
where
  "step_all C transform [] = Inr transform"
| "step_all C transform (s # ss) =
     (case tr_step C transform s of
        Inl e \<Rightarrow> Inl e
      | Inr transform' \<Rightarrow> step_all C transform' ss)"

text \<open>\<^verbatim>\<open>function receiveAction(state, steps, clientIDs, ourID)\<close>\<close>

definition receiveAction ::
  "('s, 'd) collaborators \<Rightarrow> ('s, 'd) EditorState \<Rightarrow> 's list \<Rightarrow> int list \<Rightarrow> int
     \<Rightarrow> error + ('s, 'd) action"
where
  "receiveAction C state steps0 clientIDs ourID =
     (let collab0 = collab state;
          version' = js_add (version collab0) (length steps0);
          ours = ours_loop clientIDs ourID 0;
          unconfirmed' = slice_from (unconfirmed collab0) ours;
          steps' = (if ours \<noteq> 0 then slice_from steps0 ours else steps0)
      in if length steps' = 0
         then Inr (CollabConfirm \<lparr>version = version', unconfirmed = unconfirmed'\<rparr>)
         else
           let nUnconfirmed = length unconfirmed';
               transform = tr state
           in case (if nUnconfirmed \<noteq> 0
                    then rebaseSteps C transform (map step unconfirmed')
                           (map inverted unconfirmed') steps'
                    else step_all C transform steps') of
                Inl e \<Rightarrow> Inl e
              | Inr transform' \<Rightarrow>
                  Inr (tr_action transform'
                        \<lparr>rebased = Some nUnconfirmed,
                         addToHistory = Some False,
                         newCollabState =
                           Some \<lparr>version = version',
                                 unconfirmed =
                                   unconfirmedFrom C transform' (nUnconfirmed + length steps')\<rparr>,
                         interaction = Some False\<rparr>))"

text \<open>
  \<^verbatim>\<open>function collab(options)\<close>. The options object may be absent, and so may each
  of its properties.
\<close>

record collab_options =
  opt_version :: "int option"
  opt_clientID :: "int option"

text \<open>
  What \<^verbatim>\<open>collab\<close> returns: the client ID, and the version that the state field's
  \<^verbatim>\<open>init\<close> gives the first CollabState. The other members of the plugin object
  are the functions below, closed over the client ID.
\<close>

record plugin =
  clientID :: int
  init_version :: int

text \<open>
  \<^verbatim>\<open>const clientID = options && options.clientID\<close>, then
  \<^verbatim>\<open>if (clientID == null) clientID = Math.floor(Math.random() * 0xFFFFFFFF)\<close>.
  The binding is declared \<^verbatim>\<open>const\<close>, so the assignment throws a TypeError after
  its right-hand side, here \<open>rnd\<close>, has been evaluated.
\<close>

definition collab_plugin :: "collab_options option \<Rightarrow> int \<Rightarrow> error + plugin" where
  "collab_plugin options rnd =
     (let clientID0 = (case options of None \<Rightarrow> None | Some opts \<Rightarrow> opt_clientID opts)
      in case clientID0 of
           None \<Rightarrow> Inl TypeError
         | Some c \<Rightarrow>
             Inr \<lparr>clientID = c,
                  init_version =
                    (case options of
                       None \<Rightarrow> 0
                     | Some opts \<Rightarrow> (case opt_version opts of None \<Rightarrow> 0 | Some v \<Rightarrow> v))\<rparr>)"

text \<open>\<^verbatim>\<open>init: () => new CollabState(options && options.version || 0, RopeSequence.empty)\<close>\<close>

definition init :: "plugin \<Rightarrow> 's CollabState" where
  "init p = \<lparr>version = init_version p, unconfirmed = []\<rparr>"

text \<open>\<^verbatim>\<open>applyAction({collab}, action)\<close> of the state field.\<close>

definition applyAction ::
  "('s, 'd) collaborators \<Rightarrow> 's CollabState \<Rightarrow> ('s, 'd) action \<Rightarrow> 's CollabState"
where
  "applyAction C collab0 act =
     (case act of
        TransformAction transform opts \<Rightarrow>
          (case newCollabState opts of
             Some cs \<Rightarrow> cs
           | None \<Rightarrow>
               \<lparr>version = version collab0,
                unconfirmed = unconfirmed collab0 @ unconfirmedFrom C transform 0\<rparr>)
      | CollabConfirm cs \<Rightarrow> cs
      | OtherAction \<Rightarrow> collab0)"

text \<open>The payload of \<^verbatim>\<open>sendableSteps\<close>: \<^verbatim>\<open>{version, steps, clientID}\<close>.\<close>

record 's sendable =
  sendable_version :: int
  sendable_steps :: "'s list"
  sendable_clientID :: int

text \<open>\<^verbatim>\<open>sendableSteps(state)\<close> of the plugin with client ID \<open>cid\<close>; \<open>None\<close> is \<^verbatim>\<open>null\<close>.\<close>

definition sendableSteps :: "int \<Rightarrow> ('s, 'd) EditorState \<Rightarrow> 's sendable option" where
  "sendableSteps cid state =
     (if length (unconfirmed (collab state)) = 0 then None
      else Some \<lparr>sendable_version = version (collab state),
                 sendable_steps = map step (unconfirmed (collab state)),
                 sendable_clientID = cid\<rparr>)"

section \<open>Instances for exercising the theorems\<close>

text \<open>
  Documents are integers and a step adds an integer to the document; the step \<open>0\<close>
  does not apply. Rebasing undoes the local steps, applies the remote ones and redoes
  the local ones.
\<close>

definition push_step :: "(int, int) transform \<Rightarrow> int \<Rightarrow> (int, int) transform" where
  "push_step t s = \<lparr>doc = doc t + s, steps = steps t @ [s], docs = docs t @ [doc t]\<rparr>"

definition int_collaborators :: "(int, int) collaborators" where
  "int_collaborators =
     \<lparr>invert = (\<lambda>s d. - s),
      tr_step = (\<lambda>t s. if s = 0 then Inl TransformError else Inr (push_step t s)),
      rebaseSteps = (\<lambda>t local inv remote. Inr (foldl push_step t (rev inv @ remote @ local)))\<rparr>"

definition demo_state :: "(int, int) EditorState" where
  "demo_state =
     \<lparr>collab = \<lparr>version = 5,
                 unconfirmed = [\<lparr>step = 4, inverted = - 4\<rparr>, \<lparr>step = 2, inverted = - 2\<rparr>]\<rparr>,
      tr = \<lparr>doc = 10, steps = [], docs = []\<rparr>\<rparr>"

text \<open>The demo state at the last version from which adding 1 is still exact.\<close>

definition big_state :: "(int, int) EditorState" where
  "big_state =
     \<lparr>collab = \<lparr>version = 9007199254740992,
                 unconfirmed = [\<lparr>step = 4, inverted = - 4\<rparr>]\<rparr>,
      tr = \<lparr>doc = 10, steps = [], docs = []\<rparr>\<rparr>"

text \<open>
  A second instance, in which no collaborator throws and the inverse depends on the
  document: a step replaces the document by its number, and its inverse is the step
  that puts back the document it was applied to.
\<close>

definition put_step :: "(int, int) transform \<Rightarrow> int \<Rightarrow> (int, int) transform" where
  "put_step t s = \<lparr>doc = s, steps = steps t @ [s], docs = docs t @ [doc t]\<rparr>"

definition put_collaborators :: "(int, int) collaborators" where
  "put_collaborators =
     \<lparr>invert = (\<lambda>s d. case d of None \<Rightarrow> s | Some x \<Rightarrow> x),
      tr_step = (\<lambda>t s. Inr (put_step t s)),
      rebaseSteps = (\<lambda>t local inv remote. Inr (foldl put_step t (rev inv @ remote @ local)))\<rparr>"

text \<open>The document went from 10 to 4 to 2 by two local steps that are still pending.\<close>

definition put_state :: "(int, int) EditorState" where
  "put_state =
     \<lparr>collab = \<lparr>version = 5,
                 unconfirmed = [\<lparr>step = 4, inverted = 10\<rparr>, \<lparr>step = 2, inverted = 4\<rparr>]\<rparr>,
      tr = \<lparr>doc = 2, steps = [], docs = []\<rparr>\<rparr>"

section \<open>Closed forms of the loops\<close>

lemma slice_from_drop: "slice_from xs n = drop n xs"
  by (simp add: slice_from_def)

lemma ours_loop_takeWhile:
  "n \<le> length ids \<Longrightarrow>
   ours_loop ids ourID n = n + length (takeWhile (\<lambda>c. c = ourID) (drop n ids))"
proof (induction ids ourID n rule: ours_loop.induct)
  case (1 clientIDs ourID ours)
  show ?case
  proof (cases "ours < length clientIDs \<and> clientIDs ! ours = ourID")
    case True
    then have d: "drop ours clientIDs = ourID # drop (Suc ours) clientIDs"
      by (metis Cons_nth_drop_Suc)
    from True have "ours_loop clientIDs ourID ours = ours_loop clientIDs ourID (Suc ours)"
      by (subst ours_loop.simps) simp
    also from True have "\<dots> = Suc ours
        + length (takeWhile (\<lambda>c. c = ourID) (drop (Suc ours) clientIDs))"
      using "1.IH" by simp
    finally show ?thesis by (simp add: d)
  next
    case False
    then have "ours_loop clientIDs ourID ours = ours"
      by (subst ours_loop.simps) auto
    moreover have "takeWhile (\<lambda>c. c = ourID) (drop ours clientIDs) = []"
    proof (cases "ours < length clientIDs")
      case True
      with False have "clientIDs ! ours \<noteq> ourID" by simp
      with True show ?thesis
        by (simp add: Cons_nth_drop_Suc [symmetric])
    next
      case False
      then show ?thesis by simp
    qed
    ultimately show ?thesis by simp
  qed
qed

lemma ours_loop_0: "ours_loop ids ourID 0 = length (takeWhile (\<lambda>c. c = ourID) ids)"
  using ours_loop_takeWhile [of 0 ids ourID] by simp

lemma unconfirmedFrom_loop_map:
  "unconfirmedFrom_loop C t i add =
     add @ map (\<lambda>j. \<lparr>step = steps t ! j,
                      inverted = invert C (steps t ! j) (js_nth (docs t) j)\<rparr>)
               [i ..< length (steps t)]"
proof (induction C t i add rule: unconfirmedFrom_loop.induct)
  case (1 C transform i add)
  show ?case
  proof (cases "i < length (steps transform)")
    case True
    then show ?thesis
      using "1.IH" by (subst unconfirmedFrom_loop.simps) (simp add: upt_conv_Cons)
  next
    case False
    then show ?thesis
      by (subst unconfirmedFrom_loop.simps) simp
  qed
qed

lemma unconfirmedFrom_map:
  "unconfirmedFrom C t start =
     map (\<lambda>j. \<lparr>step = steps t ! j,
                inverted = invert C (steps t ! j) (js_nth (docs t) j)\<rparr>)
         [start ..< length (steps t)]"
  by (simp add: unconfirmedFrom_def unconfirmedFrom_loop_map)

lemma receiveAction_closed:
  "receiveAction C state steps0 clientIDs ourID =
     (let ours = length (takeWhile (\<lambda>c. c = ourID) clientIDs);
          unc = drop ours (unconfirmed (collab state));
          rest = drop ours steps0
      in if rest = []
         then Inr (CollabConfirm \<lparr>version = js_add (version (collab state)) (length steps0),
                                  unconfirmed = unc\<rparr>)
         else case (if unc \<noteq> []
                    then rebaseSteps C (tr state) (map step unc) (map inverted unc) rest
                    else step_all C (tr state) rest) of
                Inl e \<Rightarrow> Inl e
              | Inr t \<Rightarrow>
                  Inr (TransformAction t
                        \<lparr>rebased = Some (length unc),
                         addToHistory = Some False,
                         newCollabState =
                           Some \<lparr>version = js_add (version (collab state)) (length steps0),
                                 unconfirmed = unconfirmedFrom C t (length unc + length rest)\<rparr>,
                         interaction = Some False\<rparr>))"
proof -
  have s: "(if n \<noteq> 0 then slice_from steps0 n else steps0) = drop n steps0" for n
    by (simp add: slice_from_drop)
  show ?thesis
    unfolding receiveAction_def Let_def ours_loop_0 s slice_from_drop tr_action_def
    by (simp cong: if_cong sum.case_cong)
qed

section \<open>Helper facts about prefixes\<close>

lemma takeWhile_replicate_others:
  "\<forall>c\<in>set others. c \<noteq> ourID \<Longrightarrow>
   takeWhile (\<lambda>c. c = ourID) (replicate k ourID @ others) = replicate k ourID"
  by (cases others) (simp_all add: takeWhile_append2 takeWhile_tail)



section \<open>Facts about the collaborators' loop and about numbers\<close>



lemma step_all_foldl:
  "\<forall>t s. tr_step C t s = Inr (f t s) \<Longrightarrow> step_all C t ss = Inr (foldl f t ss)"
  by (induction ss arbitrary: t) simp_all

lemma double_exp_small: "n < 2 ^ 53 \<Longrightarrow> double_exp n = 0"
  by (subst double_exp.simps) simp

lemma double_exp_large: "\<not> n < 2 ^ 53 \<Longrightarrow> double_exp n = Suc (double_exp (n div 2))"
  by (subst double_exp.simps) simp

lemma round_double_small: "\<bar>x\<bar> < 2 ^ 53 \<Longrightarrow> round_double x = x"
proof -
  assume "\<bar>x\<bar> < 2 ^ 53"
  then have "double_exp \<bar>x\<bar> = 0" by (rule double_exp_small)
  then show ?thesis by (simp add: round_double_def)
qed

lemma double_exp_2_53: "double_exp 9007199254740992 = 1"
  by (simp add: double_exp_large double_exp_small)

lemma round_double_exact: "\<bar>x\<bar> \<le> 2 ^ 53 \<Longrightarrow> round_double x = x"
proof -
  assume a: "\<bar>x\<bar> \<le> 2 ^ 53"
  show ?thesis
  proof (cases "\<bar>x\<bar> < 2 ^ 53")
    case True
    then show ?thesis by (rule round_double_small)
  next
    case False
    with a have "x = 9007199254740992 \<or> x = - 9007199254740992" by auto
    then show ?thesis
      by (auto simp: round_double_def double_exp_2_53)
  qed
qed

lemma js_add_exact: "\<bar>x + int n\<bar> \<le> 2 ^ 53 \<Longrightarrow> js_add x n = x + int n"
  by (simp add: js_add_def round_double_exact)

lemma js_add_2_53: "js_add 9007199254740992 1 = 9007199254740992"
  by (simp add: js_add_def round_double_def double_exp_large double_exp_small)

section \<open>Receiving a batch from the authority\<close>

text \<open>
  Claim C1, amended. Let the pending queue hold at least \<open>k\<close> entries and let the batch's
  origin IDs be \<open>k\<close> copies of the local client ID followed by \<open>others\<close>, none of
  which is the local ID, with one step per origin ID. Then the prefix scan of
  \<open>receiveAction\<close> stops at \<open>k\<close> and the trimming step drops exactly the first \<open>k\<close>
  pending entries. The CollabState carried by the resulting action has the version
  \<^verbatim>\<open>version + steps.length\<close> as JavaScript computes it: the double nearest to
  \<open>version + k + length others\<close>, which is that sum whenever its magnitude is at most
  \<open>2^53\<close>. The last conjunct gives the result in full: a confirm action with the trimmed
  queue when \<open>others\<close> is empty, and otherwise the transform action built from what the
  rebase (or the direct application of the remote steps) makes of the trimmed queue,
  unless that collaborator throws.
\<close>

theorem receiveAction_confirm_prefix:
  assumes ids: "clientIDs = replicate k ourID @ others"
    and others: "\<forall>c\<in>set others. c \<noteq> ourID"
    and len: "length steps0 = k + length others"
    and pend: "k \<le> length (unconfirmed (collab state))"
  shows "ours_loop clientIDs ourID 0 = k
    \<and> slice_from (unconfirmed (collab state)) (ours_loop clientIDs ourID 0)
        = drop k (unconfirmed (collab state))
    \<and> length (slice_from (unconfirmed (collab state)) (ours_loop clientIDs ourID 0)) + k
        = length (unconfirmed (collab state))
    \<and> (\<forall>a. receiveAction C state steps0 clientIDs ourID = Inr a \<longrightarrow>
          version (applyAction C (collab state) a)
            = js_add (version (collab state)) (k + length others)
        \<and> (\<bar>version (collab state) + int k + int (length others)\<bar> \<le> 2 ^ 53 \<longrightarrow>
             version (applyAction C (collab state) a)
               = version (collab state) + int k + int (length others)))
    \<and> receiveAction C state steps0 clientIDs ourID =
        (if others = []
         then Inr (CollabConfirm
                    \<lparr>version = js_add (version (collab state)) (k + length others),
                     unconfirmed = drop k (unconfirmed (collab state))\<rparr>)
         else case (if drop k (unconfirmed (collab state)) \<noteq> []
                    then rebaseSteps C (tr state)
                           (map step (drop k (unconfirmed (collab state))))
                           (map inverted (drop k (unconfirmed (collab state))))
                           (drop k steps0)
                    else step_all C (tr state) (drop k steps0)) of
                Inl e \<Rightarrow> Inl e
              | Inr t \<Rightarrow>
                  Inr (TransformAction t
                        \<lparr>rebased = Some (length (unconfirmed (collab state)) - k),
                         addToHistory = Some False,
                         newCollabState =
                           Some \<lparr>version = js_add (version (collab state)) (k + length others),
                                 unconfirmed =
                                   unconfirmedFrom C t
                                     (length (unconfirmed (collab state)) - k + length others)\<rparr>,
                         interaction = Some False\<rparr>))"
proof -
  have ours: "length (takeWhile (\<lambda>c. c = ourID) clientIDs) = k"
    using others by (simp add: ids takeWhile_replicate_others)
  have rest: "drop k steps0 = [] \<longleftrightarrow> others = []"
    using len by auto
  have eq: "receiveAction C state steps0 clientIDs ourID =
        (if others = []
         then Inr (CollabConfirm
                    \<lparr>version = js_add (version (collab state)) (k + length others),
                     unconfirmed = drop k (unconfirmed (collab state))\<rparr>)
         else case (if drop k (unconfirmed (collab state)) \<noteq> []
                    then rebaseSteps C (tr state)
                           (map step (drop k (unconfirmed (collab state))))
                           (map inverted (drop k (unconfirmed (collab state))))
                           (drop k steps0)
                    else step_all C (tr state) (drop k steps0)) of
                Inl e \<Rightarrow> Inl e
              | Inr t \<Rightarrow>
                  Inr (TransformAction t
                        \<lparr>rebased = Some (length (unconfirmed (collab state)) - k),
                         addToHistory = Some False,
                         newCollabState =
                           Some \<lparr>version = js_add (version (collab state)) (k + length others),
                                 unconfirmed =
                                   unconfirmedFrom C t
                                     (length (unconfirmed (collab state)) - k + length others)\<rparr>,
                         interaction = Some False\<rparr>))"
  proof (cases "others = []")
    case True
    with len show ?thesis
      by (simp add: receiveAction_closed Let_def ours)
  next
    case False
    with rest have r: "drop k steps0 \<noteq> []" by simp
    have l: "length steps0 - k = length others" using len by simp
    show ?thesis
    proof (cases "drop k (unconfirmed (collab state)) = []")
      case True
      with pend have "length (unconfirmed (collab state)) = k" by simp
      with True False r len show ?thesis
        by (simp add: receiveAction_closed Let_def ours split: sum.split)
    next
      case nonempty: False
      from nonempty have "k < length (unconfirmed (collab state))" by simp
      with nonempty False r len show ?thesis
        by (simp add: receiveAction_closed Let_def ours l split: sum.split)
    qed
  qed
  have ver: "version (applyAction C (collab state) a)
            = js_add (version (collab state)) (k + length others)"
    if "receiveAction C state steps0 clientIDs ourID = Inr a" for a
    using that unfolding eq
    by (auto simp: applyAction_def split: if_splits sum.splits)
  have exact: "js_add (version (collab state)) (k + length others)
            = version (collab state) + int k + int (length others)"
    if "\<bar>version (collab state) + int k + int (length others)\<bar> \<le> 2 ^ 53"
    using that js_add_exact [of "version (collab state)" "k + length others"]
    by (simp add: add.assoc)
  show ?thesis
    using pend ver exact eq by (simp add: ours_loop_0 ours slice_from_drop)
qed

text \<open>
  The theorem at work on a queue of two entries and the batch \<open>[4, 5]\<close> from the
  clients \<open>[7, 9]\<close>, received by client 7: one entry is confirmed and one rebased.
\<close>

theorem receiveAction_confirm_prefix_witness:
  "[7, 9] = replicate 1 7 @ [9::int]
   \<and> (7::int) \<notin> set [9]
   \<and> length [4, 5::int] = 1 + length [9::int]
   \<and> 1 \<le> length (unconfirmed (collab demo_state))
   \<and> \<bar>version (collab demo_state) + int 1 + int (length [9::int])\<bar> \<le> 2 ^ 53
   \<and> ours_loop [7, 9] 7 0 = 1
   \<and> receiveAction int_collaborators demo_state [4, 5] [7, 9] 7 =
       Inr (TransformAction \<lparr>doc = 15, steps = [- 2, 5, 2], docs = [10, 8, 13]\<rparr>
             \<lparr>rebased = Some 1, addToHistory = Some False,
              newCollabState = Some \<lparr>version = 7, unconfirmed = [\<lparr>step = 2, inverted = - 2\<rparr>]\<rparr>,
              interaction = Some False\<rparr>)"
  using receiveAction_confirm_prefix
    [where clientIDs = "[7, 9]" and k = 1 and ourID = 7 and others = "[9]"
       and ?steps0.0 = "[4, 5]" and state = demo_state and C = int_collaborators]
  by (simp add: demo_state_def int_collaborators_def push_step_def unconfirmedFrom_map
      js_nth_def js_add_exact)

text \<open>
  Claim C1 as stated, with \<open>version + k + m\<close> as the new version, fails at version
  \<open>2^53\<close>: confirming one step (\<open>k = 1\<close>, \<open>m = 0\<close>) leaves the version at \<open>2^53\<close>.
\<close>

theorem receiveAction_confirm_prefix_counterexample:
  "[7] = replicate 1 7 @ ([] :: int list)
   \<and> length [4::int] = 1 + length ([] :: int list)
   \<and> 1 \<le> length (unconfirmed (collab big_state))
   \<and> receiveAction int_collaborators big_state [4] [7] 7
       = Inr (CollabConfirm \<lparr>version = 9007199254740992, unconfirmed = []\<rparr>)
   \<and> (9007199254740992 :: int)
       \<noteq> version (collab big_state) + int 1 + int (length ([] :: int list))"
  using js_add_2_53 by (simp add: receiveAction_closed big_state_def)




text \<open>
  Claim C3. When steps remain after the self-echo prefix is dropped and \<open>receiveAction\<close>
  returns an action, that action is a transform action around the transform \<open>t\<close> that
  the rebase (or the direct application) produced, and the pending queue of the
  CollabState it carries, which is also the CollabState that \<open>applyAction\<close> installs,
  consists of the steps of \<open>t\<close> from index (number of pending entries left after
  trimming) + (number of remote steps left) to the end, each paired with its inverse
  against the entry of \<open>docs t\<close> at the same index (\<^verbatim>\<open>undefined\<close> where \<open>docs t\<close>
  has no such entry). In a transform that has one document per step, this is the
  document preceding that step.
\<close>

theorem receiveAction_new_pending_queue:
  assumes remain: "drop (ours_loop clientIDs ourID 0) steps0 \<noteq> []"
    and res: "receiveAction C state steps0 clientIDs ourID = Inr a"
  shows "\<exists>t opts cs.
           a = TransformAction t opts
         \<and> (if drop (ours_loop clientIDs ourID 0) (unconfirmed (collab state)) \<noteq> []
            then rebaseSteps C (tr state)
                   (map step (drop (ours_loop clientIDs ourID 0) (unconfirmed (collab state))))
                   (map inverted (drop (ours_loop clientIDs ourID 0) (unconfirmed (collab state))))
                   (drop (ours_loop clientIDs ourID 0) steps0)
            else step_all C (tr state) (drop (ours_loop clientIDs ourID 0) steps0)) = Inr t
         \<and> newCollabState opts = Some cs
         \<and> applyAction C (collab state) a = cs
         \<and> unconfirmed cs =
             map (\<lambda>i. \<lparr>step = steps t ! i,
                        inverted = invert C (steps t ! i)
                                     (if i < length (docs t) then Some (docs t ! i) else None)\<rparr>)
               [length (drop (ours_loop clientIDs ourID 0) (unconfirmed (collab state)))
                  + length (drop (ours_loop clientIDs ourID 0) steps0)
                ..< length (steps t)]
         \<and> (length (docs t) = length (steps t) \<longrightarrow>
              unconfirmed cs =
                map (\<lambda>i. \<lparr>step = steps t ! i,
                           inverted = invert C (steps t ! i) (Some (docs t ! i))\<rparr>)
                  [length (drop (ours_loop clientIDs ourID 0) (unconfirmed (collab state)))
                     + length (drop (ours_loop clientIDs ourID 0) steps0)
                   ..< length (steps t)])"
proof -
  let ?ours = "length (takeWhile (\<lambda>c. c = ourID) clientIDs)"
  let ?unc = "drop ?ours (unconfirmed (collab state))"
  let ?rest = "drop ?ours steps0"
  let ?call = "if ?unc \<noteq> []
               then rebaseSteps C (tr state) (map step ?unc) (map inverted ?unc) ?rest
               else step_all C (tr state) ?rest"
  from remain have r: "?rest \<noteq> []" by (simp add: ours_loop_0)
  from res r obtain t where call: "?call = Inr t"
    and a: "a = TransformAction t
              \<lparr>rebased = Some (length ?unc), addToHistory = Some False,
               newCollabState =
                 Some \<lparr>version = js_add (version (collab state)) (length steps0),
                       unconfirmed = unconfirmedFrom C t (length ?unc + length ?rest)\<rparr>,
               interaction = Some False\<rparr>"
    by (auto simp: receiveAction_closed Let_def split: sum.splits if_splits)
  have q: "unconfirmedFrom C t n =
             map (\<lambda>i. \<lparr>step = steps t ! i,
                        inverted = invert C (steps t ! i)
                                     (if i < length (docs t) then Some (docs t ! i) else None)\<rparr>)
               [n ..< length (steps t)]" for n
    by (simp add: unconfirmedFrom_map js_nth_def)
  have q': "unconfirmedFrom C t n =
             map (\<lambda>i. \<lparr>step = steps t ! i,
                        inverted = invert C (steps t ! i) (Some (docs t ! i))\<rparr>)
               [n ..< length (steps t)]"
    if "length (docs t) = length (steps t)" for n
    using that by (simp add: unconfirmedFrom_map js_nth_def)
  show ?thesis
    unfolding ours_loop_0
    using call a q q' by (simp add: applyAction_def)
qed

text \<open>
  The pending step 2 was first applied to the document 4; after the rebase over the
  remote step 5 it is step 2 of the transform and its inverse restores the document 5
  that now precedes it.
\<close>

theorem receiveAction_new_pending_queue_witness:
  "drop (ours_loop [7, 9] 7 0) [4, 5::int] \<noteq> []
   \<and> receiveAction put_collaborators put_state [4, 5] [7, 9] 7
       = Inr (TransformAction \<lparr>doc = 2, steps = [4, 5, 2], docs = [2, 4, 5]\<rparr>
               \<lparr>rebased = Some 1, addToHistory = Some False,
                newCollabState = Some \<lparr>version = 7, unconfirmed = [\<lparr>step = 2, inverted = 5\<rparr>]\<rparr>,
                interaction = Some False\<rparr>)
   \<and> length [2, 4, 5::int] = length [4, 5, 2::int]
   \<and> [\<lparr>step = 2, inverted = 5\<rparr>]
       = map (\<lambda>i. \<lparr>step = [4, 5, 2] ! i,
                    inverted = invert put_collaborators ([4, 5, 2] ! i) (Some ([2, 4, 5] ! i))\<rparr>)
           [2 ..< 3]"
proof -
  have r: "receiveAction put_collaborators put_state [4, 5] [7, 9] 7
       = Inr (TransformAction \<lparr>doc = 2, steps = [4, 5, 2], docs = [2, 4, 5]\<rparr>
               \<lparr>rebased = Some 1, addToHistory = Some False,
                newCollabState = Some \<lparr>version = 7, unconfirmed = [\<lparr>step = 2, inverted = 5\<rparr>]\<rparr>,
                interaction = Some False\<rparr>)"
    by (simp add: receiveAction_closed put_state_def put_collaborators_def put_step_def
        unconfirmedFrom_map js_nth_def js_add_exact)
  have d: "drop (ours_loop [7, 9] 7 0) [4, 5::int] \<noteq> []"
    by (simp add: ours_loop_0)
  from receiveAction_new_pending_queue [OF d r] d r show ?thesis
    by (simp add: ours_loop_0 put_state_def put_collaborators_def applyAction_def)
qed

text \<open>
  Claim C4. An empty batch gives a confirm action that carries the state's own version
  and its own pending queue; applying that action leaves the CollabState as it was.
\<close>

theorem receiveAction_empty_batch:
  "receiveAction C state [] [] ourID =
     Inr (CollabConfirm \<lparr>version = version (collab state),
                            unconfirmed = unconfirmed (collab state)\<rparr>)
   \<and> receiveAction C state [] [] ourID = Inr (CollabConfirm (collab state))
   \<and> applyAction C (collab state) (CollabConfirm (collab state)) = collab state"
  by (simp add: receiveAction_closed applyAction_def js_add_def)

text \<open>
  Claim C6, amended. A transform action returned by \<open>receiveAction\<close> carries a new
  CollabState whose version is \<^verbatim>\<open>version + steps.length\<close> as JavaScript computes it:
  the double nearest to the old version plus the batch length, which is that sum
  whenever its magnitude is at most \<open>2^53\<close>. It carries a \<open>rebased\<close> count equal to the
  number of pending entries left after the self-echo trimming, \<open>interaction\<close> false and
  \<open>addToHistory\<close> false. When no pending entry is left the count is 0 and the transform
  is the one obtained by applying the remote steps with \<open>tr_step\<close>, one after the
  other.
\<close>

theorem receiveAction_transform_action_fields:
  assumes "receiveAction C state steps0 clientIDs ourID = Inr (TransformAction t opts)"
  shows "(\<exists>cs. newCollabState opts = Some cs
               \<and> version cs = js_add (version (collab state)) (length steps0)
               \<and> (\<bar>version (collab state) + int (length steps0)\<bar> \<le> 2 ^ 53 \<longrightarrow>
                    version cs = version (collab state) + int (length steps0)))
       \<and> rebased opts
           = Some (length (slice_from (unconfirmed (collab state)) (ours_loop clientIDs ourID 0)))
       \<and> interaction opts = Some False
       \<and> addToHistory opts = Some False
       \<and> (slice_from (unconfirmed (collab state)) (ours_loop clientIDs ourID 0) = [] \<longrightarrow>
            rebased opts = Some 0
          \<and> step_all C (tr state) (drop (ours_loop clientIDs ourID 0) steps0) = Inr t
          \<and> (\<forall>f. (\<forall>t' s. tr_step C t' s = Inr (f t' s)) \<longrightarrow>
                 t = foldl f (tr state) (drop (ours_loop clientIDs ourID 0) steps0)))"
proof -
  let ?ours = "length (takeWhile (\<lambda>c. c = ourID) clientIDs)"
  let ?unc = "drop ?ours (unconfirmed (collab state))"
  let ?rest = "drop ?ours steps0"
  from assms have opts: "opts =
        \<lparr>rebased = Some (length ?unc), addToHistory = Some False,
         newCollabState =
           Some \<lparr>version = js_add (version (collab state)) (length steps0),
                 unconfirmed = unconfirmedFrom C t (length ?unc + length ?rest)\<rparr>,
         interaction = Some False\<rparr>"
    and call: "(if ?unc \<noteq> []
                then rebaseSteps C (tr state) (map step ?unc) (map inverted ?unc) ?rest
                else step_all C (tr state) ?rest) = Inr t"
    by (auto simp: receiveAction_closed Let_def split: sum.splits if_splits)
  have direct: "t = foldl f (tr state) ?rest"
    if "?unc = []" and "\<forall>t' s. tr_step C t' s = Inr (f t' s)" for f
    using call that step_all_foldl [of C f "tr state" ?rest] by simp
  have exact: "js_add (version (collab state)) (length steps0)
                 = version (collab state) + int (length steps0)"
    if "\<bar>version (collab state) + int (length steps0)\<bar> \<le> 2 ^ 53"
    using that by (rule js_add_exact)
  have A: "\<exists>cs. newCollabState opts = Some cs
               \<and> version cs = js_add (version (collab state)) (length steps0)
               \<and> (\<bar>version (collab state) + int (length steps0)\<bar> \<le> 2 ^ 53 \<longrightarrow>
                    version cs = version (collab state) + int (length steps0))"
    using exact by (simp add: opts)
  have B: "rebased opts = Some (length ?unc) \<and> interaction opts = Some False
           \<and> addToHistory opts = Some False"
    by (simp add: opts)
  have D: "?unc = [] \<longrightarrow>
            rebased opts = Some 0
          \<and> step_all C (tr state) ?rest = Inr t
          \<and> (\<forall>f. (\<forall>t' s. tr_step C t' s = Inr (f t' s)) \<longrightarrow>
                 t = foldl f (tr state) ?rest)"
  proof
    assume u: "?unc = []"
    then have "rebased opts = Some 0" by (simp add: opts)
    moreover from u call have "step_all C (tr state) ?rest = Inr t" by simp
    ultimately show "rebased opts = Some 0
          \<and> step_all C (tr state) ?rest = Inr t
          \<and> (\<forall>f. (\<forall>t' s. tr_step C t' s = Inr (f t' s)) \<longrightarrow>
                 t = foldl f (tr state) ?rest)"
      using direct [OF u] by blast
  qed
  from A B D show ?thesis
    unfolding ours_loop_0 slice_from_drop by blast
qed

text \<open>
  One pending entry rebased over the remote step 5, and the remote step 3 applied
  directly once both pending entries are confirmed.
\<close>

theorem receiveAction_transform_action_fields_witness:
  "receiveAction put_collaborators put_state [4, 5] [7, 9] 7 =
       Inr (TransformAction \<lparr>doc = 2, steps = [4, 5, 2], docs = [2, 4, 5]\<rparr>
             \<lparr>rebased = Some 1, addToHistory = Some False,
              newCollabState = Some \<lparr>version = 7, unconfirmed = [\<lparr>step = 2, inverted = 5\<rparr>]\<rparr>,
              interaction = Some False\<rparr>)
   \<and> length (slice_from (unconfirmed (collab put_state)) (ours_loop [7, 9] 7 0)) = 1
   \<and> \<bar>version (collab put_state) + int (length [4, 5::int])\<bar> \<le> 2 ^ 53
   \<and> version (collab put_state) + int (length [4, 5::int]) = 7
   \<and> receiveAction put_collaborators put_state [4, 2, 3] [7, 7, 8] 7 =
       Inr (TransformAction \<lparr>doc = 3, steps = [3], docs = [2]\<rparr>
             \<lparr>rebased = Some 0, addToHistory = Some False,
              newCollabState = Some \<lparr>version = 8, unconfirmed = []\<rparr>,
              interaction = Some False\<rparr>)
   \<and> slice_from (unconfirmed (collab put_state)) (ours_loop [7, 7, 8] 7 0) = []
   \<and> (\<forall>t' s. tr_step put_collaborators t' s = Inr (put_step t' s))
   \<and> \<lparr>doc = 3, steps = [3], docs = [2]\<rparr>
       = foldl put_step (tr put_state) (drop (ours_loop [7, 7, 8] 7 0) [4, 2, 3])"
proof -
  have r: "receiveAction put_collaborators put_state [4, 5] [7, 9] 7 =
       Inr (TransformAction \<lparr>doc = 2, steps = [4, 5, 2], docs = [2, 4, 5]\<rparr>
             \<lparr>rebased = Some 1, addToHistory = Some False,
              newCollabState = Some \<lparr>version = 7, unconfirmed = [\<lparr>step = 2, inverted = 5\<rparr>]\<rparr>,
              interaction = Some False\<rparr>)"
    by (simp add: receiveAction_closed put_state_def put_collaborators_def put_step_def
        unconfirmedFrom_map js_nth_def js_add_exact)
  have r': "receiveAction put_collaborators put_state [4, 2, 3] [7, 7, 8] 7 =
       Inr (TransformAction \<lparr>doc = 3, steps = [3], docs = [2]\<rparr>
             \<lparr>rebased = Some 0, addToHistory = Some False,
              newCollabState = Some \<lparr>version = 8, unconfirmed = []\<rparr>,
              interaction = Some False\<rparr>)"
    by (simp add: receiveAction_closed put_state_def put_collaborators_def put_step_def
        unconfirmedFrom_map js_nth_def js_add_exact)
  have e: "slice_from (unconfirmed (collab put_state)) (ours_loop [7, 7, 8] 7 0) = []"
    by (simp add: slice_from_drop ours_loop_0 put_state_def)
  have f: "\<forall>t' s. tr_step put_collaborators t' s = Inr (put_step t' s)"
    by (simp add: put_collaborators_def)
  from receiveAction_transform_action_fields [OF r]
    receiveAction_transform_action_fields [OF r'] r r' e f
  show ?thesis
    by (simp add: put_state_def)
qed

text \<open>
  Claim C6 as stated, with the old version plus the batch length as the new version,
  fails at version \<open>2^53\<close>: the transform action for one remote step carries the
  version \<open>2^53\<close>.
\<close>

theorem receiveAction_transform_action_fields_counterexample:
  "receiveAction int_collaborators big_state [5] [9] 7 =
       Inr (TransformAction \<lparr>doc = 15, steps = [- 4, 5, 4], docs = [10, 6, 11]\<rparr>
             \<lparr>rebased = Some 1, addToHistory = Some False,
              newCollabState =
                Some \<lparr>version = 9007199254740992,
                      unconfirmed = [\<lparr>step = 4, inverted = - 4\<rparr>]\<rparr>,
              interaction = Some False\<rparr>)
   \<and> (9007199254740992 :: int) \<noteq> version (collab big_state) + int (length [5::int])"
  using js_add_2_53
  by (simp add: receiveAction_closed big_state_def int_collaborators_def push_step_def
      unconfirmedFrom_map js_nth_def)




section \<open>Creating the plugin\<close>

lemma collab_configured_clientID:
  "collab_plugin (Some \<lparr>opt_version = v, opt_clientID = Some c\<rparr>) rnd
     = Inr \<lparr>clientID = c, init_version = (case v of None \<Rightarrow> 0 | Some n \<Rightarrow> n)\<rparr>"
  by (simp add: collab_plugin_def)

text \<open>
  Claim C5. The claim is that \<open>collab\<close> called without a configured clientID completes
  and yields a positive 32-bit client ID. The code does not: with no options object, or
  with one that has no clientID, the assignment of the random number to the \<^verbatim>\<open>const\<close>
  binding throws, whatever the random number is.
\<close>

theorem collab_default_clientID_raises:
  "collab_plugin None rnd = Inl TypeError
   \<and> collab_plugin (Some \<lparr>opt_version = v, opt_clientID = None\<rparr>) rnd = Inl TypeError"
  by (simp add: collab_plugin_def)

section \<open>Local edits\<close>

lemma map_step_unconfirmedFrom: "map step (unconfirmedFrom C t 0) = steps t"
  by (simp add: unconfirmedFrom_map comp_def map_nth)

text \<open>
  Claim C7. A local edit is a transform action without a \<open>newCollabState\<close>. Applying it
  gives a CollabState with the version unchanged and the old pending queue followed by
  one entry per step of the action's transform, in the transform's order, each step
  paired with its inverse against the document preceding it. A CollabState has no other
  component.
\<close>

theorem applyAction_local_edit:
  assumes "newCollabState opts = None"
  shows "applyAction C collab0 (TransformAction t opts) =
           \<lparr>version = version collab0,
            unconfirmed = unconfirmed collab0 @
              map (\<lambda>i. \<lparr>step = steps t ! i,
                         inverted = invert C (steps t ! i) (js_nth (docs t) i)\<rparr>)
                [0 ..< length (steps t)]\<rparr>
       \<and> version (applyAction C collab0 (TransformAction t opts)) = version collab0
       \<and> take (length (unconfirmed collab0))
            (unconfirmed (applyAction C collab0 (TransformAction t opts))) = unconfirmed collab0
       \<and> map step (unconfirmed (applyAction C collab0 (TransformAction t opts)))
           = map step (unconfirmed collab0) @ steps t
       \<and> length (unconfirmed (applyAction C collab0 (TransformAction t opts)))
           = length (unconfirmed collab0) + length (steps t)"
  using assms
  by (simp add: applyAction_def unconfirmedFrom_map comp_def map_nth)

theorem applyAction_local_edit_witness:
  "newCollabState \<lparr>rebased = None, addToHistory = None, newCollabState = None,
                    interaction = None\<rparr> = (None :: int CollabState option)
   \<and> applyAction int_collaborators (collab demo_state)
        (TransformAction \<lparr>doc = 19, steps = [3, 6], docs = [10, 13]\<rparr>
           \<lparr>rebased = None, addToHistory = None, newCollabState = None, interaction = None\<rparr>)
      = \<lparr>version = 5,
         unconfirmed = [\<lparr>step = 4, inverted = - 4\<rparr>, \<lparr>step = 2, inverted = - 2\<rparr>,
                        \<lparr>step = 3, inverted = - 3\<rparr>, \<lparr>step = 6, inverted = - 6\<rparr>]\<rparr>"
  using applyAction_local_edit
    [where opts = "\<lparr>rebased = None, addToHistory = None, newCollabState = None,
                     interaction = None\<rparr>"
       and C = int_collaborators and ?collab0.0 = "collab demo_state"
       and t = "\<lparr>doc = 19, steps = [3, 6], docs = [10, 13]\<rparr>"]
  by (simp add: demo_state_def int_collaborators_def upt_conv_Cons)

section \<open>Outbound steps\<close>

text \<open>
  Claim C8. \<open>sendableSteps\<close> returns \<^verbatim>\<open>null\<close> exactly when the pending queue is
  empty; otherwise the payload holds the state's version, the pending steps in queue
  order without their inverses, and the plugin's client ID.
\<close>

theorem sendableSteps_payload:
  "(sendableSteps cid state = None \<longleftrightarrow> unconfirmed (collab state) = [])
   \<and> (unconfirmed (collab state) \<noteq> [] \<longrightarrow>
        sendableSteps cid state =
          Some \<lparr>sendable_version = version (collab state),
                sendable_steps = map step (unconfirmed (collab state)),
                sendable_clientID = cid\<rparr>)"
  by (simp add: sendableSteps_def)

theorem sendableSteps_payload_witness:
  "unconfirmed (collab demo_state) \<noteq> []
   \<and> sendableSteps 7 demo_state
       = Some \<lparr>sendable_version = 5, sendable_steps = [4, 2], sendable_clientID = 7\<rparr>
   \<and> sendableSteps 7 (demo_state\<lparr>collab := \<lparr>version = 5, unconfirmed = []\<rparr>\<rparr>) = None"
  using sendableSteps_payload [of 7 demo_state]
    sendableSteps_payload [of 7 "demo_state\<lparr>collab := \<lparr>version = 5, unconfirmed = []\<rparr>\<rparr>"]
  by (simp add: demo_state_def)

end
